theory Spec2Isabelle
  imports Complex_Main
begin

section \<open>Circular motion and its SHM projection: the kinematics sampler\<close>

text \<open>
  The two scripts \<^verbatim>\<open>SHM.py\<close> and \<^verbatim>\<open>SHMstreamlit.py\<close> fix four scalar parameters,
  sample the time axis with \<^verbatim>\<open>np.linspace\<close> and derive seven arrays from it by
  closed-form formulas; a callback \<^verbatim>\<open>update(frame)\<close> then reads the arrays and
  redraws the plot artists.

  Conventions of the embedding:
  \<^item> the arithmetic is read twice. Where a property is an identity between the
    formulas the code evaluates, a Python float (and a float64 array element)
    is a \<^typ>\<open>real\<close> and arithmetic is exact. Where a property depends on
    rounding, on an infinity or on a NaN, the same lines are read over IEEE 754
    binary64;
  \<^item> a one-dimensional numpy array is a list;
  \<^item> a Python exception is a value \<open>Inl e\<close> of a sum type;
  \<^item> the module-level code that builds the arrays is a function of the four
    scalars it reads, so that it can be stated for all parameters and not only
    for the constants the scripts assign.
\<close>

subsection \<open>Exceptions\<close>

datatype py_error = ValueError | IndexError

definition py_bind :: "py_error + 'a \<Rightarrow> ('a \<Rightarrow> py_error + 'b) \<Rightarrow> py_error + 'b" where
  "py_bind m f = (case m of Inl e \<Rightarrow> Inl e | Inr v \<Rightarrow> f v)"

subsection \<open>The numpy operations the scripts call\<close>

text \<open>
  \<^verbatim>\<open>np.linspace(start, stop, num)\<close> with the default \<^verbatim>\<open>endpoint=True\<close>, following
  numpy's implementation: a negative \<^verbatim>\<open>num\<close> raises \<^verbatim>\<open>ValueError\<close>; otherwise
  \<^verbatim>\<open>arange(0, num)\<close> is scaled by \<^verbatim>\<open>step = (stop - start) / (num - 1)\<close>
  (by \<^verbatim>\<open>stop - start\<close> alone when \<^verbatim>\<open>num - 1\<close> is not positive), shifted by
  \<^verbatim>\<open>start\<close>, and when \<^verbatim>\<open>num > 1\<close> the last element is overwritten with \<^verbatim>\<open>stop\<close>.
\<close>

definition linspace :: "real \<Rightarrow> real \<Rightarrow> int \<Rightarrow> py_error + real list" where
  "linspace start stop num =
     (if num < 0 then Inl ValueError
      else
        let dv = num - 1;
            y0 = map real [0..<nat num];
            delta = stop - start;
            y1 = (if dv > 0 then
                    (let step = delta / real_of_int dv in
                     if step = 0 then map (\<lambda>v. v / real_of_int dv * delta) y0
                     else map (\<lambda>v. v * step) y0)
                  else map (\<lambda>v. v * delta) y0);
            y2 = map (\<lambda>v. v + start) y1
        in Inr (if num > 1 then y2[nat num - 1 := stop] else y2))"

text \<open>\<^verbatim>\<open>np.zeros_like(a)\<close>: an array of zeros of the shape of \<^verbatim>\<open>a\<close>.\<close>

definition zeros_like :: "real list \<Rightarrow> real list" where
  "zeros_like a = replicate (length a) 0"

text \<open>\<^verbatim>\<open>a.copy()\<close>: a fresh array with the elements of \<^verbatim>\<open>a\<close>.\<close>

definition copy :: "'a list \<Rightarrow> 'a list" where
  "copy a = map (\<lambda>v. v) a"

subsection \<open>The trajectory sample set\<close>

record 'a sample_set =
  t_full :: "'a list"
  x_full :: "'a list"
  y_full :: "'a list"
  z_full :: "'a list"
  d_full :: "'a list"
  v_full :: "'a list"
  a_full :: "'a list"
  F_full :: "'a list"

text \<open>
  Lines 16 to 30 of \<^verbatim>\<open>SHM.py\<close>, as a function of the globals \<^verbatim>\<open>R\<close>, \<^verbatim>\<open>omega\<close>,
  \<^verbatim>\<open>t_max\<close> and \<^verbatim>\<open>n_frames\<close>. An elementwise operation on an array is a
  \<open>map\<close>; \<^verbatim>\<open>-R * omega**2 * c\<close> is \<^verbatim>\<open>((-R) * (omega**2)) * c\<close> in Python as it
  is here.
\<close>

definition SHM_sampler :: "real \<Rightarrow> real \<Rightarrow> real \<Rightarrow> int \<Rightarrow> py_error + real sample_set" where
  "SHM_sampler R omega t_max n_frames =
     py_bind (linspace 0 t_max n_frames) (\<lambda>t_full.
       let x_full = map (\<lambda>t. R * cos (omega * t)) t_full;
           y_full = map (\<lambda>t. R * sin (omega * t)) t_full;
           z_full = zeros_like t_full;
           d_full = copy x_full;
           v_full = map (\<lambda>t. - R * omega * sin (omega * t)) t_full;
           a_full = map (\<lambda>t. - R * omega ^ 2 * cos (omega * t)) t_full;
           F_full = copy a_full
       in Inr \<lparr>t_full = t_full, x_full = x_full, y_full = y_full, z_full = z_full,
               d_full = d_full, v_full = v_full, a_full = a_full, F_full = F_full\<rparr>)"

text \<open>The constants of \<^verbatim>\<open>SHM.py\<close>, lines 9 to 13; \<^verbatim>\<open>int\<close> of an \<^verbatim>\<open>int\<close> is itself.\<close>

definition SHM_R :: real where "SHM_R = 1.0"
definition SHM_omega :: real where "SHM_omega = 2 * pi / 5"
definition SHM_t_max :: int where "SHM_t_max = 10"
definition SHM_fps :: int where "SHM_fps = 30"
definition SHM_n_frames :: int where "SHM_n_frames = SHM_t_max * SHM_fps"

definition SHM_arrays :: "py_error + real sample_set" where
  "SHM_arrays = SHM_sampler SHM_R SHM_omega (real_of_int SHM_t_max) SHM_n_frames"

subsection \<open>The streamlit script\<close>

text \<open>Lines 17 to 28 of \<^verbatim>\<open>SHMstreamlit.py\<close>, translated on their own.\<close>

definition SHMstreamlit_sampler :: "real \<Rightarrow> real \<Rightarrow> real \<Rightarrow> int \<Rightarrow> py_error + real sample_set" where
  "SHMstreamlit_sampler R omega t_max n_frames =
     py_bind (linspace 0 t_max n_frames) (\<lambda>t_full.
       let x_full = map (\<lambda>t. R * cos (omega * t)) t_full;
           y_full = map (\<lambda>t. R * sin (omega * t)) t_full;
           z_full = zeros_like t_full;
           d_full = copy x_full;
           v_full = map (\<lambda>t. - R * omega * sin (omega * t)) t_full;
           a_full = map (\<lambda>t. - R * omega ^ 2 * cos (omega * t)) t_full;
           F_full = copy a_full
       in Inr \<lparr>t_full = t_full, x_full = x_full, y_full = y_full, z_full = z_full,
               d_full = d_full, v_full = v_full, a_full = a_full, F_full = F_full\<rparr>)"

text \<open>The constants of \<^verbatim>\<open>SHMstreamlit.py\<close>, lines 10 to 14.\<close>

definition SHMstreamlit_R :: real where "SHMstreamlit_R = 1.0"
definition SHMstreamlit_omega :: real where "SHMstreamlit_omega = 2 * pi / 5"
definition SHMstreamlit_t_max :: int where "SHMstreamlit_t_max = 10"
definition SHMstreamlit_fps :: int where "SHMstreamlit_fps = 30"
definition SHMstreamlit_n_frames :: int where
  "SHMstreamlit_n_frames = SHMstreamlit_t_max * SHMstreamlit_fps"

definition SHMstreamlit_arrays :: "py_error + real sample_set" where
  "SHMstreamlit_arrays =
     SHMstreamlit_sampler SHMstreamlit_R SHMstreamlit_omega
       (real_of_int SHMstreamlit_t_max) SHMstreamlit_n_frames"

subsection \<open>Indexing and slicing\<close>

text \<open>
  \<^verbatim>\<open>a[k]\<close> for an integer \<^verbatim>\<open>k\<close>: a negative index counts from the end, and an
  index outside \<^verbatim>\<open>-len(a) .. len(a) - 1\<close> raises \<^verbatim>\<open>IndexError\<close>.
\<close>

definition getitem :: "real list \<Rightarrow> int \<Rightarrow> py_error + real" where
  "getitem a k =
     (let n = int (length a); k' = (if k < 0 then k + n else k)
      in if k' < 0 \<or> n \<le> k' then Inl IndexError else Inr (a ! nat k'))"

text \<open>
  \<^verbatim>\<open>a[slice(0, stop)]\<close>: a negative \<^verbatim>\<open>stop\<close> counts from the end, and the bounds
  are clipped to the array, so a slice never raises.
\<close>

definition getslice :: "real list \<Rightarrow> int \<Rightarrow> real list" where
  "getslice a stop =
     (let n = int (length a);
          stop' = (if stop < 0 then max 0 (stop + n) else min stop n)
      in take (nat stop') a)"

subsection \<open>Plot artists and the module state\<close>

text \<open>
  Of a matplotlib artist only the data it draws is kept. A \<^verbatim>\<open>Line3D\<close> is a
  \<^verbatim>\<open>Line2D\<close> with a third coordinate; a quiver is one arrow, from its base point
  along its direction.
\<close>

record line2d =
  xdata :: "real list"
  ydata :: "real list"

record line3d = line2d +
  zdata :: "real list"

record quiver =
  X :: real
  Y :: real
  Z :: real
  U :: real
  V :: real
  W :: real

definition set_data :: "real list \<Rightarrow> real list \<Rightarrow> 'a line2d_scheme \<Rightarrow> 'a line2d_scheme" where
  "set_data xs ys l = l\<lparr>xdata := xs, ydata := ys\<rparr>"

definition set_3d_properties :: "real list \<Rightarrow> line3d \<Rightarrow> line3d" where
  "set_3d_properties zs l = l\<lparr>zdata := zs\<rparr>"

text \<open>
  The globals that \<^verbatim>\<open>update\<close> reaches: the eight arrays, which are mutable
  objects, and the artists. The floats \<^verbatim>\<open>R\<close> and \<^verbatim>\<open>omega\<close> are immutable and
  never reassigned, so they are arguments.
\<close>

record module_state =
  arrays :: "real sample_set"
  point_3d :: line3d
  line_center_to_point :: line3d
  proj_line :: line3d
  force_quiver :: "quiver option"
  line_f :: line2d
  line_d :: line2d
  line_v :: line2d
  line_a :: line2d

text \<open>Lines 91 to 101: every artist is plotted with empty data, and there is no arrow yet.\<close>

definition SHM_initial :: "real sample_set \<Rightarrow> module_state" where
  "SHM_initial smp =
     \<lparr>arrays = smp,
      point_3d = \<lparr>xdata = [], ydata = [], zdata = []\<rparr>,
      line_center_to_point = \<lparr>xdata = [], ydata = [], zdata = []\<rparr>,
      proj_line = \<lparr>xdata = [], ydata = [], zdata = []\<rparr>,
      force_quiver = None,
      line_f = \<lparr>xdata = [], ydata = []\<rparr>,
      line_d = \<lparr>xdata = [], ydata = []\<rparr>,
      line_v = \<lparr>xdata = [], ydata = []\<rparr>,
      line_a = \<lparr>xdata = [], ydata = []\<rparr>\<rparr>"

text \<open>
  \<^verbatim>\<open>update(frame)\<close>, lines 106 to 151 of \<^verbatim>\<open>SHM.py\<close>. The seven element reads
  come first and each may raise; the artists are written after them, so a
  call that raises has changed nothing. Removing the old arrow and drawing a
  new one leaves the new one in \<^verbatim>\<open>force_quiver\<close>. \<^verbatim>\<open>current_slice\<close> is
  \<^verbatim>\<open>slice(0, frame + 1)\<close>, kept as its stop. The tuple the function returns
  holds artists of the new state.
\<close>

definition update :: "real \<Rightarrow> real \<Rightarrow> int \<Rightarrow> module_state \<Rightarrow> py_error + module_state" where
  "update R omega frame s =
     py_bind (getitem (t_full (arrays s)) frame) (\<lambda>t.
     py_bind (getitem (x_full (arrays s)) frame) (\<lambda>x.
     py_bind (getitem (y_full (arrays s)) frame) (\<lambda>y.
     py_bind (getitem (z_full (arrays s)) frame) (\<lambda>z.
     py_bind (getitem (d_full (arrays s)) frame) (\<lambda>d.
     py_bind (getitem (v_full (arrays s)) frame) (\<lambda>v.
     py_bind (getitem (a_full (arrays s)) frame) (\<lambda>a.
       let fx = - R * omega ^ 2 * cos (omega * t);
           fy = - R * omega ^ 2 * sin (omega * t);
           fz = 0;
           current_slice = frame + 1
       in Inr (s\<lparr>
            point_3d := set_3d_properties [z] (set_data [x] [y] (point_3d s)),
            line_center_to_point :=
              set_3d_properties [0, z] (set_data [0, x] [0, y] (line_center_to_point s)),
            proj_line := set_3d_properties [0, z] (set_data [x, x] [0, 0] (proj_line s)),
            force_quiver := Some \<lparr>X = x, Y = y, Z = z, U = fx, V = fy, W = fz\<rparr>,
            line_f := set_data (getslice (t_full (arrays s)) current_slice)
                        (getslice (F_full (arrays s)) current_slice) (line_f s),
            line_d := set_data (getslice (t_full (arrays s)) current_slice)
                        (getslice (d_full (arrays s)) current_slice) (line_d s),
            line_v := set_data (getslice (t_full (arrays s)) current_slice)
                        (getslice (v_full (arrays s)) current_slice) (line_v s),
            line_a := set_data (getslice (t_full (arrays s)) current_slice)
                        (getslice (a_full (arrays s)) current_slice) (line_a s)\<rparr>))))))))"

subsection \<open>The same lines over IEEE 754 binary64\<close>
























section \<open>Properties\<close>

subsection \<open>The time grid\<close>

lemma linspace_valid:
  assumes "1 < num"
  shows "linspace 0 stop num =
           Inr (map (\<lambda>i. real i * stop / real_of_int (num - 1)) [0..<nat num])"
proof -
  let ?n = "nat num"
  let ?d = "real_of_int (num - 1)"
  let ?g = "map (\<lambda>i. real i * stop / ?d) [0..<?n]"
  from assms have dpos: "0 < ?d" by simp
  have last_ok: "?g[?n - 1 := stop] = ?g"
  proof (rule nth_equalityI)
    show "length (?g[?n - 1 := stop]) = length ?g" by simp
  next
    fix i assume "i < length (?g[?n - 1 := stop])"
    then have i: "i < ?n" by simp
    show "?g[?n - 1 := stop] ! i = ?g ! i"
    proof (cases "i = ?n - 1")
      case True
      with assms have "real i = ?d" by (simp add: of_nat_diff)
      with i True dpos show ?thesis by simp
    next
      case False
      with i show ?thesis by simp
    qed
  qed
  define step where "step = (stop - 0) / ?d"
  have a: "map (\<lambda>v. v + 0) (map (\<lambda>v. v / ?d * (stop - 0)) (map real [0..<?n])) = ?g"
    by (simp add: o_def)
  have b: "map (\<lambda>v. v + 0) (map (\<lambda>v. v * step) (map real [0..<?n])) = ?g"
    by (simp add: o_def step_def)
  have "linspace 0 stop num =
          Inr ((if step = 0
                then map (\<lambda>v. v + 0) (map (\<lambda>v. v / ?d * (stop - 0)) (map real [0..<?n]))
                else map (\<lambda>v. v + 0) (map (\<lambda>v. v * step) (map real [0..<?n])))
               [?n - 1 := stop])"
    using assms unfolding linspace_def Let_def step_def by (simp only: if_distrib) simp
  also have "\<dots> = Inr (?g[?n - 1 := stop])"
    by (simp only: a b if_cancel)
  finally show ?thesis by (simp only: last_ok)
qed

subsection \<open>What the sampler returns\<close>

lemma linspace_length: "linspace a b num = Inr ts \<Longrightarrow> length ts = nat num"
  unfolding linspace_def Let_def by (auto split: if_splits)

lemma linspace_returns: "0 \<le> num \<Longrightarrow> \<exists>ts. linspace a b num = Inr ts"
  unfolding linspace_def Let_def by simp

lemma linspace_negative: "num < 0 \<Longrightarrow> linspace a b num = Inl ValueError"
  unfolding linspace_def by simp

lemma SHM_sampler_fields:
  assumes "SHM_sampler R omega t_max N = Inr s"
  shows "linspace 0 t_max N = Inr (t_full s)"
    and "x_full s = map (\<lambda>t. R * cos (omega * t)) (t_full s)"
    and "y_full s = map (\<lambda>t. R * sin (omega * t)) (t_full s)"
    and "z_full s = replicate (length (t_full s)) 0"
    and "d_full s = x_full s"
    and "v_full s = map (\<lambda>t. - R * omega * sin (omega * t)) (t_full s)"
    and "a_full s = map (\<lambda>t. - R * omega ^ 2 * cos (omega * t)) (t_full s)"
    and "F_full s = a_full s"
  using assms unfolding SHM_sampler_def py_bind_def Let_def zeros_like_def copy_def
  by (auto split: sum.splits)

lemma SHM_sampler_returns: "0 \<le> N \<Longrightarrow> \<exists>s. SHM_sampler R omega t_max N = Inr s"
  using linspace_returns [of N 0 t_max]
  unfolding SHM_sampler_def py_bind_def Let_def by auto

lemma SHM_sampler_negative: "N < 0 \<Longrightarrow> SHM_sampler R omega t_max N = Inl ValueError"
  unfolding SHM_sampler_def py_bind_def by (simp add: linspace_negative)

lemma SHM_sampler_lengths:
  assumes "SHM_sampler R omega t_max N = Inr s"
  shows "length (t_full s) = nat N" "length (x_full s) = nat N" "length (y_full s) = nat N"
    "length (z_full s) = nat N" "length (d_full s) = nat N" "length (v_full s) = nat N"
    "length (a_full s) = nat N" "length (F_full s) = nat N"
  using SHM_sampler_fields [OF assms] linspace_length [of 0 t_max N "t_full s"]
  by simp_all

lemma SHM_t_full_nth:
  assumes "1 < N" "SHM_sampler R omega t_max N = Inr s" "i < nat N"
  shows "t_full s ! i = real i * t_max / real_of_int (N - 1)"
proof -
  have "t_full s = map (\<lambda>i. real i * t_max / real_of_int (N - 1)) [0..<nat N]"
    using SHM_sampler_fields(1) [OF assms(2)] linspace_valid [OF assms(1), of t_max] by simp
  with assms(3) show ?thesis by simp
qed

subsection \<open>The time grid in exact arithmetic\<close>

text \<open>
  In exact arithmetic the grid of a valid input has \<open>N\<close> times, from \<open>0\<close> to
  \<open>t_max\<close>, strictly increasing and \<open>t_max / (N - 1)\<close> apart. Rounding is left
  out here; what binary64 keeps of this is proved in the last section.
\<close>

lemma SHM_time_grid_exact:
  assumes "0 < R" "0 < t_max" "1 < N"
  shows "\<exists>s. SHM_sampler R omega t_max N = Inr s
           \<and> length (t_full s) = nat N \<and> length (x_full s) = nat N
           \<and> length (y_full s) = nat N \<and> length (z_full s) = nat N
           \<and> length (d_full s) = nat N \<and> length (v_full s) = nat N
           \<and> length (a_full s) = nat N \<and> length (F_full s) = nat N
           \<and> t_full s ! 0 = 0
           \<and> t_full s ! (nat N - 1) = t_max
           \<and> (\<forall>i. i + 1 < nat N \<longrightarrow>
                 t_full s ! (i + 1) - t_full s ! i = t_max / real_of_int (N - 1))
           \<and> (\<forall>i j. i < j \<and> j < nat N \<longrightarrow> t_full s ! i < t_full s ! j)"
proof -
  from assms(3) obtain s where s: "SHM_sampler R omega t_max N = Inr s"
    using SHM_sampler_returns [of N R omega t_max] by auto
  note nth = SHM_t_full_nth [OF assms(3) s]
  let ?d = "real_of_int (N - 1)"
  from assms(3) have dpos: "0 < ?d" by simp
  have first: "t_full s ! 0 = 0"
    using nth [of 0] assms(3) by simp
  have "real (nat N - 1) = ?d"
    using assms(3) by (simp add: of_nat_diff)
  then have lst: "t_full s ! (nat N - 1) = t_max"
    using nth [of "nat N - 1"] assms(3) dpos by simp
  have spacing: "t_full s ! (i + 1) - t_full s ! i = t_max / ?d" if "i + 1 < nat N" for i
  proof -
    from that have "i < nat N" by simp
    with that nth [of i] nth [of "i + 1"] show ?thesis
      by (simp add: field_simps)
  qed
  have incr: "t_full s ! i < t_full s ! j" if "i < j" "j < nat N" for i j
  proof -
    from that have "i < nat N" by simp
    moreover from that(1) assms(2) have "real i * t_max < real j * t_max" by simp
    ultimately show ?thesis
      using nth [of i] nth [of j] that(2) dpos by (simp add: divide_strict_right_mono)
  qed
  from s SHM_sampler_lengths [OF s] first lst spacing incr show ?thesis
    by blast
qed

subsection \<open>Claim C2: the closed-form kinematics\<close>

text \<open>The two derivatives the data model names: \<open>v = dd/dt\<close> and \<open>a = dv/dt\<close>.\<close>

lemma d_deriv:
  "((\<lambda>t. R * cos (omega * t)) has_real_derivative - R * omega * sin (omega * t)) (at t)"
  by (auto intro!: derivative_eq_intros)

lemma v_deriv:
  "((\<lambda>t. - R * omega * sin (omega * t)) has_real_derivative
      - R * omega ^ 2 * cos (omega * t)) (at t)"
  by (auto intro!: derivative_eq_intros simp: power2_eq_square)

text \<open>
  C2. For every valid input (\<open>R > 0\<close>, any \<open>omega\<close>, \<open>t_max > 0\<close>, \<open>N > 1\<close>) the
  sampler returns, and every frame \<open>i\<close> of what it returns has
  \<open>x = R cos (omega t)\<close>, \<open>y = R sin (omega t)\<close>, \<open>z = 0\<close>, \<open>d = x\<close>,
  \<open>v = - R omega sin (omega t)\<close>, which is the derivative of the displacement
  at the frame's time, \<open>a = - R omega\<^sup>2 cos (omega t)\<close>, which is the
  derivative of the velocity there, and \<open>F = a\<close>.
\<close>

theorem C2_closed_form:
  assumes "0 < R" "0 < t_max" "1 < N"
  shows "\<exists>s. SHM_sampler R omega t_max N = Inr s \<and>
           (\<forall>i < nat N.
              x_full s ! i = R * cos (omega * t_full s ! i)
            \<and> y_full s ! i = R * sin (omega * t_full s ! i)
            \<and> z_full s ! i = 0
            \<and> d_full s ! i = x_full s ! i
            \<and> v_full s ! i = - R * omega * sin (omega * t_full s ! i)
            \<and> ((\<lambda>t. R * cos (omega * t)) has_real_derivative v_full s ! i)
                 (at (t_full s ! i))
            \<and> a_full s ! i = - R * omega ^ 2 * cos (omega * t_full s ! i)
            \<and> ((\<lambda>t. - R * omega * sin (omega * t)) has_real_derivative a_full s ! i)
                 (at (t_full s ! i))
            \<and> F_full s ! i = a_full s ! i)"
proof -
  from assms(3) obtain s where s: "SHM_sampler R omega t_max N = Inr s"
    using SHM_sampler_returns [of N R omega t_max] by auto
  note f = SHM_sampler_fields [OF s]
  note len = SHM_sampler_lengths(1) [OF s]
  have "x_full s ! i = R * cos (omega * t_full s ! i)
      \<and> y_full s ! i = R * sin (omega * t_full s ! i)
      \<and> z_full s ! i = 0
      \<and> d_full s ! i = x_full s ! i
      \<and> v_full s ! i = - R * omega * sin (omega * t_full s ! i)
      \<and> ((\<lambda>t. R * cos (omega * t)) has_real_derivative v_full s ! i) (at (t_full s ! i))
      \<and> a_full s ! i = - R * omega ^ 2 * cos (omega * t_full s ! i)
      \<and> ((\<lambda>t. - R * omega * sin (omega * t)) has_real_derivative a_full s ! i)
           (at (t_full s ! i))
      \<and> F_full s ! i = a_full s ! i" if "i < nat N" for i
  proof -
    from that len have i: "i < length (t_full s)" by simp
    have x: "x_full s ! i = R * cos (omega * t_full s ! i)"
      using i by (simp add: f(2))
    have y: "y_full s ! i = R * sin (omega * t_full s ! i)"
      using i by (simp add: f(3))
    have z: "z_full s ! i = 0"
      using i by (simp add: f(4))
    have v: "v_full s ! i = - R * omega * sin (omega * t_full s ! i)"
      using i by (simp add: f(6))
    have a: "a_full s ! i = - R * omega ^ 2 * cos (omega * t_full s ! i)"
      using i by (simp add: f(7))
    from x y z v a f(5) f(8) d_deriv [of R omega "t_full s ! i"]
      v_deriv [of R omega "t_full s ! i"]
    show ?thesis by simp
  qed
  with s show ?thesis by blast
qed

text \<open>The last frame of the script's own sample set.\<close>

theorem C2_closed_form_witness:
  "\<exists>s. SHM_arrays = Inr s
       \<and> x_full s ! 299 = SHM_R * cos (SHM_omega * t_full s ! 299)
       \<and> y_full s ! 299 = SHM_R * sin (SHM_omega * t_full s ! 299)
       \<and> z_full s ! 299 = 0
       \<and> d_full s ! 299 = x_full s ! 299
       \<and> v_full s ! 299 = - SHM_R * SHM_omega * sin (SHM_omega * t_full s ! 299)
       \<and> a_full s ! 299 = - SHM_R * SHM_omega ^ 2 * cos (SHM_omega * t_full s ! 299)
       \<and> F_full s ! 299 = a_full s ! 299"
proof -
  have "0 < SHM_R" "0 < real_of_int SHM_t_max" "1 < SHM_n_frames"
    by (simp_all add: SHM_R_def SHM_t_max_def SHM_n_frames_def SHM_fps_def)
  from C2_closed_form [OF this, of SHM_omega] obtain s where
    s: "SHM_arrays = Inr s" and
    all: "\<forall>i < nat SHM_n_frames.
              x_full s ! i = SHM_R * cos (SHM_omega * t_full s ! i)
            \<and> y_full s ! i = SHM_R * sin (SHM_omega * t_full s ! i)
            \<and> z_full s ! i = 0
            \<and> d_full s ! i = x_full s ! i
            \<and> v_full s ! i = - SHM_R * SHM_omega * sin (SHM_omega * t_full s ! i)
            \<and> ((\<lambda>t. SHM_R * cos (SHM_omega * t)) has_real_derivative v_full s ! i)
                 (at (t_full s ! i))
            \<and> a_full s ! i = - SHM_R * SHM_omega ^ 2 * cos (SHM_omega * t_full s ! i)
            \<and> ((\<lambda>t. - SHM_R * SHM_omega * sin (SHM_omega * t)) has_real_derivative
                  a_full s ! i) (at (t_full s ! i))
            \<and> F_full s ! i = a_full s ! i"
    unfolding SHM_arrays_def by blast
  have "299 < nat SHM_n_frames"
    by (simp add: SHM_t_max_def SHM_n_frames_def SHM_fps_def)
  with all have "x_full s ! 299 = SHM_R * cos (SHM_omega * t_full s ! 299)
       \<and> y_full s ! 299 = SHM_R * sin (SHM_omega * t_full s ! 299)
       \<and> z_full s ! 299 = 0
       \<and> d_full s ! 299 = x_full s ! 299
       \<and> v_full s ! 299 = - SHM_R * SHM_omega * sin (SHM_omega * t_full s ! 299)
       \<and> a_full s ! 299 = - SHM_R * SHM_omega ^ 2 * cos (SHM_omega * t_full s ! 299)
       \<and> F_full s ! 299 = a_full s ! 299"
    by blast
  with s show ?thesis by blast
qed

subsection \<open>The circle in exact arithmetic\<close>

text \<open>
  In exact arithmetic every frame of a valid input has \<open>x\<^sup>2 + y\<^sup>2 = R\<^sup>2\<close> and
  \<open>z = 0\<close>. Rounding is left out here; what binary64 keeps of this is proved
  in the last section.
\<close>

lemma SHM_on_circle_exact:
  assumes "0 < R" "0 < t_max" "1 < N"
  shows "\<exists>s. SHM_sampler R omega t_max N = Inr s \<and>
           (\<forall>i < nat N. (x_full s ! i)\<^sup>2 + (y_full s ! i)\<^sup>2 = R\<^sup>2 \<and> z_full s ! i = 0)"
proof -
  from assms(3) obtain s where s: "SHM_sampler R omega t_max N = Inr s"
    using SHM_sampler_returns [of N R omega t_max] by auto
  note f = SHM_sampler_fields [OF s]
  note len = SHM_sampler_lengths(1) [OF s]
  have "(x_full s ! i)\<^sup>2 + (y_full s ! i)\<^sup>2 = R\<^sup>2 \<and> z_full s ! i = 0" if "i < nat N" for i
  proof -
    from that len have i: "i < length (t_full s)" by simp
    let ?c = "cos (omega * t_full s ! i)" and ?s = "sin (omega * t_full s ! i)"
    have x: "x_full s ! i = R * ?c" and y: "y_full s ! i = R * ?s" and z: "z_full s ! i = 0"
      using i by (simp_all add: f(2,3,4))
    have "(R * ?c)\<^sup>2 + (R * ?s)\<^sup>2 = R\<^sup>2 * (?s\<^sup>2 + ?c\<^sup>2)"
      by (simp only: power_mult_distrib distrib_left add.commute)
    also have "\<dots> = R\<^sup>2" by simp
    finally have eq: "(R * ?c)\<^sup>2 + (R * ?s)\<^sup>2 = R\<^sup>2" .
    show ?thesis unfolding x y z by (intro conjI eq refl)
  qed
  with s show ?thesis by blast
qed

subsection \<open>Claim C6: resampling with twice the frame count\<close>

text \<open>Every field of a frame is a function of the frame's time, \<open>R\<close> and \<open>omega\<close> alone.\<close>

lemma SHM_frame_nth:
  assumes "SHM_sampler R omega t_max N = Inr s" "i < nat N"
  shows "x_full s ! i = R * cos (omega * t_full s ! i)"
    and "y_full s ! i = R * sin (omega * t_full s ! i)"
    and "z_full s ! i = 0"
    and "d_full s ! i = R * cos (omega * t_full s ! i)"
    and "v_full s ! i = - R * omega * sin (omega * t_full s ! i)"
    and "a_full s ! i = - R * omega ^ 2 * cos (omega * t_full s ! i)"
    and "F_full s ! i = - R * omega ^ 2 * cos (omega * t_full s ! i)"
proof -
  note f = SHM_sampler_fields [OF assms(1)]
  from assms(2) SHM_sampler_lengths(1) [OF assms(1)] have i: "i < length (t_full s)" by simp
  show "x_full s ! i = R * cos (omega * t_full s ! i)" using i by (simp add: f(2))
  then show "d_full s ! i = R * cos (omega * t_full s ! i)" by (simp add: f(5))
  show "y_full s ! i = R * sin (omega * t_full s ! i)" using i by (simp add: f(3))
  show "z_full s ! i = 0" using i by (simp add: f(4))
  show "v_full s ! i = - R * omega * sin (omega * t_full s ! i)" using i by (simp add: f(6))
  show "a_full s ! i = - R * omega ^ 2 * cos (omega * t_full s ! i)" using i by (simp add: f(7))
  then show "F_full s ! i = - R * omega ^ 2 * cos (omega * t_full s ! i)" by (simp add: f(8))
qed

text \<open>
  C6. For every valid input the sampler returns for the frame count \<open>N\<close> and for
  \<open>2 N\<close>, and wherever a time of the first grid equals a time of the second,
  the two frames agree on \<open>x\<close>, \<open>y\<close>, \<open>z\<close>, \<open>d\<close>, \<open>v\<close>, \<open>a\<close> and \<open>F\<close>.
\<close>

theorem C6_resampling:
  assumes "0 < R" "0 < t_max" "1 < N"
  shows "\<exists>s s'. SHM_sampler R omega t_max N = Inr s
           \<and> SHM_sampler R omega t_max (2 * N) = Inr s'
           \<and> (\<forall>i < nat N. \<forall>j < nat (2 * N).
                 t_full s ! i = t_full s' ! j \<longrightarrow>
                   x_full s ! i = x_full s' ! j \<and> y_full s ! i = y_full s' ! j
                 \<and> z_full s ! i = z_full s' ! j \<and> d_full s ! i = d_full s' ! j
                 \<and> v_full s ! i = v_full s' ! j \<and> a_full s ! i = a_full s' ! j
                 \<and> F_full s ! i = F_full s' ! j)"
proof -
  from assms(3) obtain s where s: "SHM_sampler R omega t_max N = Inr s"
    using SHM_sampler_returns [of N R omega t_max] by auto
  from assms(3) obtain s' where s': "SHM_sampler R omega t_max (2 * N) = Inr s'"
    using SHM_sampler_returns [of "2 * N" R omega t_max] by auto
  have "x_full s ! i = x_full s' ! j \<and> y_full s ! i = y_full s' ! j
      \<and> z_full s ! i = z_full s' ! j \<and> d_full s ! i = d_full s' ! j
      \<and> v_full s ! i = v_full s' ! j \<and> a_full s ! i = a_full s' ! j
      \<and> F_full s ! i = F_full s' ! j"
    if "i < nat N" "j < nat (2 * N)" "t_full s ! i = t_full s' ! j" for i j
    using SHM_frame_nth [OF s that(1)] SHM_frame_nth [OF s' that(2)] that(3) by simp
  with s s' show ?thesis by blast
qed

text \<open>
  The script's parameters with 300 and 600 frames: the last frames of both
  grids are at \<open>t_max\<close> and agree.
\<close>

theorem C6_resampling_witness:
  "\<exists>s s'. SHM_arrays = Inr s
       \<and> SHM_sampler SHM_R SHM_omega (real_of_int SHM_t_max) (2 * SHM_n_frames) = Inr s'
       \<and> t_full s ! 299 = t_full s' ! 599
       \<and> x_full s ! 299 = x_full s' ! 599 \<and> y_full s ! 299 = y_full s' ! 599
       \<and> z_full s ! 299 = z_full s' ! 599 \<and> d_full s ! 299 = d_full s' ! 599
       \<and> v_full s ! 299 = v_full s' ! 599 \<and> a_full s ! 299 = a_full s' ! 599
       \<and> F_full s ! 299 = F_full s' ! 599"
proof -
  have valid: "0 < SHM_R" "0 < real_of_int SHM_t_max" "1 < SHM_n_frames"
    by (simp_all add: SHM_R_def SHM_t_max_def SHM_n_frames_def SHM_fps_def)
  from C6_resampling [OF valid, of SHM_omega] obtain s s' where
    s: "SHM_arrays = Inr s" and
    s': "SHM_sampler SHM_R SHM_omega (real_of_int SHM_t_max) (2 * SHM_n_frames) = Inr s'" and
    all: "\<forall>i < nat SHM_n_frames. \<forall>j < nat (2 * SHM_n_frames).
                 t_full s ! i = t_full s' ! j \<longrightarrow>
                   x_full s ! i = x_full s' ! j \<and> y_full s ! i = y_full s' ! j
                 \<and> z_full s ! i = z_full s' ! j \<and> d_full s ! i = d_full s' ! j
                 \<and> v_full s ! i = v_full s' ! j \<and> a_full s ! i = a_full s' ! j
                 \<and> F_full s ! i = F_full s' ! j"
    unfolding SHM_arrays_def by blast
  have n: "SHM_n_frames = 300" "SHM_t_max = 10"
    by (simp_all add: SHM_t_max_def SHM_n_frames_def SHM_fps_def)
  have "t_full s ! 299 = 10"
    using SHM_t_full_nth [of SHM_n_frames SHM_R SHM_omega "real_of_int SHM_t_max" s 299] s
    unfolding SHM_arrays_def by (simp add: n)
  moreover have "t_full s' ! 599 = 10"
    using SHM_t_full_nth [of "2 * SHM_n_frames" SHM_R SHM_omega "real_of_int SHM_t_max" s' 599] s'
    by (simp add: n)
  ultimately have shared: "t_full s ! 299 = t_full s' ! 599" by simp
  have "299 < nat SHM_n_frames" "599 < nat (2 * SHM_n_frames)" by (simp_all add: n)
  with all shared have
    "x_full s ! 299 = x_full s' ! 599 \<and> y_full s ! 299 = y_full s' ! 599
       \<and> z_full s ! 299 = z_full s' ! 599 \<and> d_full s ! 299 = d_full s' ! 599
       \<and> v_full s ! 299 = v_full s' ! 599 \<and> a_full s ! 299 = a_full s' ! 599
       \<and> F_full s ! 299 = F_full s' ! 599"
    by blast
  with s s' shared show ?thesis by blast
qed

text \<open>
  The two grids share little: \<open>N - 1\<close> and \<open>2 N - 1\<close> are coprime, so a time
  of the \<open>N\<close>-frame grid is a time of the \<open>2 N\<close>-frame grid only at the first
  and at the last frame.
\<close>

lemma shared_index_endpoints:
  fixes n i j :: nat
  assumes "1 < n" "i < n" "i * (2 * n - 1) = j * (n - 1)"
  shows "(i = 0 \<and> j = 0) \<or> (i = n - 1 \<and> j = 2 * n - 1)"
proof -
  have "gcd (n - 1) (2 * (n - 1) + 1) = 1"
    using gcd_add_mult [of "n - 1" 2 1] by simp
  moreover have "2 * n - 1 = 2 * (n - 1) + 1" using assms(1) by simp
  ultimately have "coprime (n - 1) (2 * n - 1)"
    by (simp only: coprime_iff_gcd_eq_1)
  moreover have "(n - 1) dvd i * (2 * n - 1)"
    unfolding assms(3) by simp
  ultimately have "(n - 1) dvd i"
    by (simp add: coprime_dvd_mult_left_iff)
  then obtain k where k: "i = (n - 1) * k" ..
  from assms(1) have pos: "0 < n - 1" by simp
  show ?thesis
  proof (cases k)
    case 0
    with k have "i = 0" by simp
    with assms(3) pos have "j = 0" by simp
    with \<open>i = 0\<close> show ?thesis by simp
  next
    case (Suc k')
    have "k' = 0"
    proof (rule ccontr)
      assume "k' \<noteq> 0"
      then have "2 \<le> k" using Suc by simp
      then have "(n - 1) * 2 \<le> (n - 1) * k" by (intro mult_le_mono2)
      then have "(n - 1) * 2 \<le> i" by (simp only: k)
      moreover have "n \<le> (n - 1) * 2" using assms(1) by simp
      ultimately show False using assms(2) by linarith
    qed
    with Suc k have i: "i = n - 1" by simp
    with assms(3) have "(n - 1) * (2 * n - 1) = (n - 1) * j" by (simp add: ac_simps)
    with pos have "j = 2 * n - 1" by simp
    with i show ?thesis by simp
  qed
qed


lemma SHM_shared_times:
  assumes "0 < t_max" "1 < N"
    and "SHM_sampler R omega t_max N = Inr s"
    and "SHM_sampler R omega t_max (2 * N) = Inr s'"
    and "i < nat N" "j < nat (2 * N)" "t_full s ! i = t_full s' ! j"
  shows "(i = 0 \<and> j = 0) \<or> (i = nat N - 1 \<and> j = nat (2 * N) - 1)"
proof -
  define n where "n = nat N"
  from assms(2) have n: "1 < n" "N = int n" by (simp_all add: n_def)
  have d1: "real_of_int (N - 1) = real (n - 1)"
    and d2: "real_of_int (2 * N - 1) = real (2 * n - 1)"
    using n by (simp_all add: of_nat_diff)
  have p1: "0 < real (n - 1)" and p2: "0 < real (2 * n - 1)"
    using n(1) by simp_all
  from assms(2) have "1 < 2 * N" by simp
  from SHM_t_full_nth [OF assms(2,3,5)] SHM_t_full_nth [OF this assms(4,6)] assms(7)
  have "real i * t_max / real (n - 1) = real j * t_max / real (2 * n - 1)"
    by (simp only: d1 d2)
  with p1 p2 have "real i * t_max * real (2 * n - 1) = real j * t_max * real (n - 1)"
    by (simp add: field_simps)
  with assms(1) have "real i * real (2 * n - 1) = real j * real (n - 1)"
    by simp
  then have "real (i * (2 * n - 1)) = real (j * (n - 1))"
    by simp
  then have "i * (2 * n - 1) = j * (n - 1)"
    by (simp only: of_nat_eq_iff)
  moreover from assms(5) have "i < n" by (simp add: n_def)
  ultimately have "(i = 0 \<and> j = 0) \<or> (i = n - 1 \<and> j = 2 * n - 1)"
    using n(1) by (intro shared_index_endpoints)
  moreover have "nat (2 * N) = 2 * n" by (simp add: n(2))
  ultimately show ?thesis by (simp add: n_def)
qed

subsection \<open>Claim C8: the two entry points\<close>

text \<open>
  C8. The array-building code of \<^verbatim>\<open>SHMstreamlit.py\<close> and that of \<^verbatim>\<open>SHM.py\<close>
  return the same result for the same parameters (the same eight arrays, or
  the same exception); the two scripts assign the same parameters, so their
  sample sets are equal.
\<close>

theorem C8_entry_points_agree:
  "SHMstreamlit_sampler R omega t_max n_frames = SHM_sampler R omega t_max n_frames
   \<and> SHMstreamlit_R = SHM_R \<and> SHMstreamlit_omega = SHM_omega
   \<and> SHMstreamlit_t_max = SHM_t_max \<and> SHMstreamlit_n_frames = SHM_n_frames
   \<and> SHMstreamlit_arrays = SHM_arrays"
proof -
  have same: "SHMstreamlit_sampler R omega t_max n_frames = SHM_sampler R omega t_max n_frames"
    for R omega t_max n_frames
    unfolding SHMstreamlit_sampler_def SHM_sampler_def by (rule refl)
  have params: "SHMstreamlit_R = SHM_R" "SHMstreamlit_omega = SHM_omega"
    "SHMstreamlit_t_max = SHM_t_max" "SHMstreamlit_n_frames = SHM_n_frames"
    unfolding SHMstreamlit_R_def SHM_R_def SHMstreamlit_omega_def SHM_omega_def
      SHMstreamlit_t_max_def SHM_t_max_def SHMstreamlit_n_frames_def SHM_n_frames_def
      SHMstreamlit_fps_def SHM_fps_def
    by (rule refl)+
  have "SHMstreamlit_arrays = SHM_arrays"
    unfolding SHMstreamlit_arrays_def SHM_arrays_def same params by (rule refl)
  with same params show ?thesis by simp
qed

subsection \<open>Small ranges\<close>

lemma upt_2: "[0..<2] = [0, Suc 0]"
  by (simp add: numeral_2_eq_2)

subsection \<open>The per-frame callback\<close>

text \<open>
  On an index inside the arrays every read of \<^verbatim>\<open>update\<close> succeeds and every
  slice is a prefix, so the new state can be written out.
\<close>

lemma getitem_in_range:
  "0 \<le> k \<Longrightarrow> k < int (length a) \<Longrightarrow> getitem a k = Inr (a ! nat k)"
  unfolding getitem_def Let_def by simp

lemma getslice_in_range:
  "0 \<le> stop \<Longrightarrow> stop \<le> int (length a) \<Longrightarrow> getslice a stop = take (nat stop) a"
  unfolding getslice_def Let_def by (simp add: min_def)

lemma update_in_range:
  assumes "SHM_sampler R omega t_max N = Inr smp" "arrays s = smp" "0 \<le> frame" "frame < N"
  shows "update R omega frame s =
     Inr (s\<lparr>
       point_3d := set_3d_properties [z_full smp ! nat frame]
         (set_data [x_full smp ! nat frame] [y_full smp ! nat frame] (point_3d s)),
       line_center_to_point := set_3d_properties [0, z_full smp ! nat frame]
         (set_data [0, x_full smp ! nat frame] [0, y_full smp ! nat frame]
            (line_center_to_point s)),
       proj_line := set_3d_properties [0, z_full smp ! nat frame]
         (set_data [x_full smp ! nat frame, x_full smp ! nat frame] [0, 0] (proj_line s)),
       force_quiver := Some \<lparr>X = x_full smp ! nat frame, Y = y_full smp ! nat frame,
         Z = z_full smp ! nat frame,
         U = - R * omega ^ 2 * cos (omega * t_full smp ! nat frame),
         V = - R * omega ^ 2 * sin (omega * t_full smp ! nat frame), W = 0\<rparr>,
       line_f := set_data (take (nat frame + 1) (t_full smp))
                   (take (nat frame + 1) (F_full smp)) (line_f s),
       line_d := set_data (take (nat frame + 1) (t_full smp))
                   (take (nat frame + 1) (d_full smp)) (line_d s),
       line_v := set_data (take (nat frame + 1) (t_full smp))
                   (take (nat frame + 1) (v_full smp)) (line_v s),
       line_a := set_data (take (nat frame + 1) (t_full smp))
                   (take (nat frame + 1) (a_full smp)) (line_a s)\<rparr>)"
proof -
  note len = SHM_sampler_lengths [OF assms(1)]
  from assms(3,4) have k: "frame < int (nat N)" by simp
  have get: "getitem a frame = Inr (a ! nat frame)" if "length a = nat N" for a
    using getitem_in_range [of frame a] assms(3) k that by simp
  have sl: "getslice a (frame + 1) = take (nat frame + 1) a" if "length a = nat N" for a
    using getslice_in_range [of "frame + 1" a] assms(3) k that by (simp add: nat_add_distrib)
  show ?thesis
    unfolding update_def assms(2) py_bind_def Let_def
    by (simp add: get len sl)
qed

text \<open>The script's own run: its sample set, the initial artists and the last frame.\<close>

lemma SHM_script_in_range:
  obtains smp where "SHM_sampler SHM_R SHM_omega (real_of_int SHM_t_max) SHM_n_frames = Inr smp"
    and "SHM_arrays = Inr smp" and "arrays (SHM_initial smp) = smp"
    and "(0::int) \<le> 299" and "299 < SHM_n_frames"
proof -
  have "0 \<le> SHM_n_frames"
    by (simp add: SHM_n_frames_def SHM_t_max_def SHM_fps_def)
  then obtain smp where
    smp: "SHM_sampler SHM_R SHM_omega (real_of_int SHM_t_max) SHM_n_frames = Inr smp"
    using SHM_sampler_returns by blast
  moreover from smp have "SHM_arrays = Inr smp" by (simp add: SHM_arrays_def)
  moreover have "arrays (SHM_initial smp) = smp" by (simp add: SHM_initial_def)
  moreover have "299 < SHM_n_frames"
    by (simp add: SHM_n_frames_def SHM_t_max_def SHM_fps_def)
  ultimately show ?thesis using that by simp
qed

subsection \<open>Claim C7: the callback only reads the arrays\<close>

text \<open>
  C7. For every frame index and every state, a call of \<^verbatim>\<open>update\<close> that returns
  leaves the sample set as it was: the arrays \<open>t\<close>, \<open>x\<close>, \<open>y\<close>, \<open>z\<close>, \<open>d\<close>, \<open>v\<close>,
  \<open>a\<close> and \<open>F\<close> of the new state are those of the old one. (A call that raises
  does so at one of its reads, before anything is written.)
\<close>

theorem C7_update_reads_only:
  assumes "update R omega frame s = Inr s'"
  shows "arrays s' = arrays s"
  using assms unfolding update_def py_bind_def Let_def
  by (auto split: sum.splits)

text \<open>The last frame drawn from the script's sample set.\<close>

theorem C7_update_reads_only_witness:
  "\<exists>smp s'. SHM_arrays = Inr smp
     \<and> update SHM_R SHM_omega 299 (SHM_initial smp) = Inr s' \<and> arrays s' = smp"
proof -
  obtain smp where smp:
    "SHM_sampler SHM_R SHM_omega (real_of_int SHM_t_max) SHM_n_frames = Inr smp"
    "SHM_arrays = Inr smp" "arrays (SHM_initial smp) = smp" "(0::int) \<le> 299"
    "299 < SHM_n_frames"
    by (rule SHM_script_in_range)
  from update_in_range [OF smp(1,3,4,5)]
  obtain s' where s': "update SHM_R SHM_omega 299 (SHM_initial smp) = Inr s'"
    by blast
  from C7_update_reads_only [OF s'] smp(3) have "arrays s' = smp" by simp
  with smp(2) s' show ?thesis by blast
qed

subsection \<open>Claim C9: the force vector recomputed per frame\<close>

text \<open>
  C9. For every frame index \<open>0 \<le> frame < N\<close> of a sample set the sampler
  returned, \<^verbatim>\<open>update\<close> returns and the arrow it draws has the components
  \<open>fx = - R omega\<^sup>2 cos (omega t_full[frame])\<close>, which equals \<open>a_full[frame]\<close> and
  \<open>F_full[frame]\<close>, \<open>fy = - R omega\<^sup>2 sin (omega t_full[frame])\<close>, which equals
  \<open>- omega\<^sup>2 y_full[frame]\<close>, and \<open>fz = 0\<close>.
\<close>

theorem C9_force_recomputed:
  assumes "SHM_sampler R omega t_max N = Inr smp" "arrays s = smp" "0 \<le> frame" "frame < N"
  shows "\<exists>s' q. update R omega frame s = Inr s' \<and> force_quiver s' = Some q
           \<and> U q = - R * omega ^ 2 * cos (omega * t_full smp ! nat frame)
           \<and> U q = a_full smp ! nat frame
           \<and> U q = F_full smp ! nat frame
           \<and> V q = - R * omega ^ 2 * sin (omega * t_full smp ! nat frame)
           \<and> V q = - (omega ^ 2) * y_full smp ! nat frame
           \<and> W q = 0"
proof -
  from assms(3,4) have i: "nat frame < nat N" by simp
  note fr = SHM_frame_nth [OF assms(1) i]
  let ?q = "\<lparr>X = x_full smp ! nat frame, Y = y_full smp ! nat frame,
         Z = z_full smp ! nat frame,
         U = - R * omega ^ 2 * cos (omega * t_full smp ! nat frame),
         V = - R * omega ^ 2 * sin (omega * t_full smp ! nat frame), W = 0\<rparr>"
  from update_in_range [OF assms] obtain s' where
    s': "update R omega frame s = Inr s'" and q: "force_quiver s' = Some ?q"
    by simp
  have "V ?q = - (omega ^ 2) * y_full smp ! nat frame"
    by (simp add: fr(2))
  moreover have "U ?q = a_full smp ! nat frame" "U ?q = F_full smp ! nat frame"
    by (simp_all add: fr(6,7))
  ultimately show ?thesis using s' q by (intro exI [of _ s'] exI [of _ ?q]) simp
qed

text \<open>The arrow of the last frame of the script's sample set.\<close>

theorem C9_force_recomputed_witness:
  "\<exists>smp s' q. SHM_arrays = Inr smp
     \<and> update SHM_R SHM_omega 299 (SHM_initial smp) = Inr s' \<and> force_quiver s' = Some q
     \<and> U q = a_full smp ! 299 \<and> U q = F_full smp ! 299
     \<and> V q = - (SHM_omega ^ 2) * y_full smp ! 299 \<and> W q = 0"
proof -
  obtain smp where smp:
    "SHM_sampler SHM_R SHM_omega (real_of_int SHM_t_max) SHM_n_frames = Inr smp"
    "SHM_arrays = Inr smp" "arrays (SHM_initial smp) = smp" "(0::int) \<le> 299"
    "299 < SHM_n_frames"
    by (rule SHM_script_in_range)
  from C9_force_recomputed [OF smp(1,3,4,5)] smp(2) show ?thesis
    by auto
qed

subsection \<open>Claim C10: every access of the callback is in bounds\<close>

text \<open>
  C10. For every frame index \<open>0 \<le> frame < N\<close> of a sample set the sampler
  returned, each of the seven element reads of \<^verbatim>\<open>update\<close> is inside its array
  and returns the element, each of the five slices \<open>[0, frame + 1)\<close> lies
  inside its array and so has exactly \<open>frame + 1\<close> elements, and \<^verbatim>\<open>update\<close>
  returns without raising.
\<close>

theorem C10_update_in_bounds:
  assumes "SHM_sampler R omega t_max N = Inr smp" "arrays s = smp" "0 \<le> frame" "frame < N"
  shows "getitem (t_full smp) frame = Inr (t_full smp ! nat frame)
       \<and> getitem (x_full smp) frame = Inr (x_full smp ! nat frame)
       \<and> getitem (y_full smp) frame = Inr (y_full smp ! nat frame)
       \<and> getitem (z_full smp) frame = Inr (z_full smp ! nat frame)
       \<and> getitem (d_full smp) frame = Inr (d_full smp ! nat frame)
       \<and> getitem (v_full smp) frame = Inr (v_full smp ! nat frame)
       \<and> getitem (a_full smp) frame = Inr (a_full smp ! nat frame)
       \<and> nat frame < length (t_full smp) \<and> nat frame < length (x_full smp)
       \<and> nat frame < length (y_full smp) \<and> nat frame < length (z_full smp)
       \<and> nat frame < length (d_full smp) \<and> nat frame < length (v_full smp)
       \<and> nat frame < length (a_full smp)
       \<and> length (getslice (t_full smp) (frame + 1)) = nat frame + 1
       \<and> length (getslice (F_full smp) (frame + 1)) = nat frame + 1
       \<and> length (getslice (d_full smp) (frame + 1)) = nat frame + 1
       \<and> length (getslice (v_full smp) (frame + 1)) = nat frame + 1
       \<and> length (getslice (a_full smp) (frame + 1)) = nat frame + 1
       \<and> (\<exists>s'. update R omega frame s = Inr s')"
proof -
  note len = SHM_sampler_lengths [OF assms(1)]
  from assms(3,4) have i: "nat frame < nat N" and k: "frame < int (nat N)" by simp_all
  have get: "getitem a frame = Inr (a ! nat frame)" if "length a = nat N" for a
    using getitem_in_range [of frame a] assms(3) k that by simp
  have sl: "length (getslice a (frame + 1)) = nat frame + 1" if "length a = nat N" for a
  proof -
    from i have "nat frame + 1 \<le> nat N" by linarith
    moreover have "getslice a (frame + 1) = take (nat frame + 1) a"
      using getslice_in_range [of "frame + 1" a] assms(3) k that
      by (simp add: nat_add_distrib)
    ultimately show ?thesis using that by simp
  qed
  have ret: "\<exists>s'. update R omega frame s = Inr s'"
    using update_in_range [OF assms] by simp
  show ?thesis
    using i ret by (simp add: get sl len)
qed

text \<open>The last frame of the script's sample set: index 299, slices of all 300 elements.\<close>

theorem C10_update_in_bounds_witness:
  "\<exists>smp s'. SHM_arrays = Inr smp
     \<and> getitem (t_full smp) 299 = Inr (t_full smp ! 299)
     \<and> getitem (a_full smp) 299 = Inr (a_full smp ! 299)
     \<and> length (getslice (t_full smp) 300) = 300
     \<and> length (getslice (F_full smp) 300) = 300
     \<and> update SHM_R SHM_omega 299 (SHM_initial smp) = Inr s'"
proof -
  obtain smp where smp:
    "SHM_sampler SHM_R SHM_omega (real_of_int SHM_t_max) SHM_n_frames = Inr smp"
    "SHM_arrays = Inr smp" "arrays (SHM_initial smp) = smp" "(0::int) \<le> 299"
    "299 < SHM_n_frames"
    by (rule SHM_script_in_range)
  from C10_update_in_bounds [OF smp(1,3,4,5)] smp(2) show ?thesis
    by auto
qed

subsection \<open>Claim C4: the scenario of the script's own parameters\<close>

text \<open>What the script's constants evaluate to, and its sample set frame by frame.\<close>

lemma SHM_script_values:
  "SHM_n_frames = 300" "SHM_t_max = 10" "SHM_R = 1"
  by (simp_all add: SHM_t_max_def SHM_n_frames_def SHM_fps_def SHM_R_def)

lemma SHM_script_returns: "\<exists>s. SHM_arrays = Inr s"
  unfolding SHM_arrays_def by (rule SHM_sampler_returns) (simp add: SHM_script_values)

lemma SHM_script_grid:
  assumes "SHM_arrays = Inr s"
  shows "length (t_full s) = 300"
    and "i < 300 \<Longrightarrow> t_full s ! i = real i * 10 / 299"
proof -
  from assms have s: "SHM_sampler 1 SHM_omega 10 300 = Inr s"
    by (simp add: SHM_arrays_def SHM_script_values)
  show "length (t_full s) = 300"
    using SHM_sampler_lengths(1) [OF s] by simp
  show "t_full s ! i = real i * 10 / 299" if "i < 300"
    using SHM_t_full_nth [OF _ s, of i] that by simp
qed

lemma SHM_script_frame:
  assumes "SHM_arrays = Inr s" "i < 300"
  shows "x_full s ! i = cos (SHM_omega * t_full s ! i)"
    and "y_full s ! i = sin (SHM_omega * t_full s ! i)"
    and "d_full s ! i = cos (SHM_omega * t_full s ! i)"
    and "v_full s ! i = - SHM_omega * sin (SHM_omega * t_full s ! i)"
    and "a_full s ! i = - (SHM_omega ^ 2) * cos (SHM_omega * t_full s ! i)"
    and "F_full s ! i = - (SHM_omega ^ 2) * cos (SHM_omega * t_full s ! i)"
proof -
  from assms(1) have s: "SHM_sampler 1 SHM_omega 10 300 = Inr s"
    by (simp add: SHM_arrays_def SHM_script_values)
  from assms(2) have i: "i < nat 300" by simp
  note fr = SHM_frame_nth [OF s i]
  show "x_full s ! i = cos (SHM_omega * t_full s ! i)" using fr(1) by simp
  show "y_full s ! i = sin (SHM_omega * t_full s ! i)" using fr(2) by simp
  show "d_full s ! i = cos (SHM_omega * t_full s ! i)" using fr(4) by simp
  show "v_full s ! i = - SHM_omega * sin (SHM_omega * t_full s ! i)" using fr(5) by simp
  show "a_full s ! i = - (SHM_omega ^ 2) * cos (SHM_omega * t_full s ! i)" using fr(6) by simp
  show "F_full s ! i = - (SHM_omega ^ 2) * cos (SHM_omega * t_full s ! i)" using fr(7) by simp
qed

text \<open>
  The grid has the step \<open>10 / 299\<close>, and \<open>5 / 4 = i * 10 / 299\<close> would need
  \<open>8 i = 299\<close>.
\<close>

lemma no_frame_at_quarter_period:
  assumes "length ts = 300" "\<And>i. i < 300 \<Longrightarrow> ts ! i = real i * 10 / 299"
  shows "5 / 4 \<notin> set ts"
proof
  assume "5 / 4 \<in> set ts"
  then obtain i where i: "i < 300" "ts ! i = 5 / 4"
    using assms(1) by (auto simp: in_set_conv_nth)
  with assms(2) [of i] have "real i * 10 / 299 = 5 / 4" by simp
  then have "real (i * 8) = real 299" by simp
  then have "i * 8 = 299" by (simp only: of_nat_eq_iff)
  then show False by presburger
qed

text \<open>
  Frame 37 is at the angle \<open>pi / 2 - 3 pi / 598\<close>; the bounds below follow from
  \<open>0 < sin e \<le> e\<close> and \<open>1 - e\<^sup>2 / 2 \<le> cos e\<close> with \<open>pi < 4\<close>.
\<close>

lemma cos_lower: "1 - x\<^sup>2 / 2 \<le> cos (x::real)"
proof -
  have "\<bar>sin (x / 2)\<bar> \<le> \<bar>x / 2\<bar>" by (rule abs_sin_x_le_abs_x)
  then have "(sin (x / 2))\<^sup>2 \<le> (x / 2)\<^sup>2" by (simp only: abs_le_square_iff)
  moreover have "cos x = 1 - 2 * (sin (x / 2))\<^sup>2"
    using cos_double_sin [of "x / 2"] by simp
  ultimately show ?thesis by (simp add: power2_eq_square)
qed

lemma quarter_period_angle:
  "SHM_omega * (37 * 10 / 299) = pi / 2 - 3 * pi / 598"
  by (simp add: SHM_omega_def field_simps)

lemma eps_bounds: "0 < 3 * pi / 598" "3 * pi / 598 < 12 / 598" "3 * pi / 598 < pi"
  using pi_less_4 pi_gt_zero by simp_all

lemma omega_bounds: "0 < SHM_omega" "SHM_omega < 8 / 5"
  using pi_less_4 pi_gt_zero by (simp_all add: SHM_omega_def)


lemma near_quarter_period:
  fixes c sn :: real
  defines "c \<equiv> cos (SHM_omega * (37 * 10 / 299))"
    and "sn \<equiv> sin (SHM_omega * (37 * 10 / 299))"
  shows "0 < c" "c < 0.021" "0.9997 < sn" "sn \<le> 1"
    "0 \<le> - SHM_omega * sn + SHM_omega" "- SHM_omega * sn + SHM_omega < 0.0004"
    "- 0.052 < - (SHM_omega ^ 2) * c" "- (SHM_omega ^ 2) * c < 0"
proof -
  define e :: real where "e = 3 * pi / 598"
  have e: "0 < e" "e < 12 / 598" "e < pi"
    using eps_bounds by (simp_all add: e_def)
  have ang: "SHM_omega * (37 * 10 / 299) = pi / 2 - e"
    unfolding e_def by (rule quarter_period_angle)
  have c: "c = sin e"
    unfolding c_def ang using sin_cos_eq [of e] by simp
  have sn: "sn = cos e"
    unfolding sn_def ang using cos_sin_eq [of e] by simp
  have se: "0 < sin e" "sin e \<le> e"
    using e sin_gt_zero [of e] sin_x_le_x [of e] by simp_all
  show c0: "0 < c" and c1: "c < 0.021"
    using se e by (simp_all add: c)
  have "e\<^sup>2 < (12 / 598)\<^sup>2"
    using e by (intro power_strict_mono) simp_all
  moreover have "(12 / 598 :: real)\<^sup>2 < 0.00042"
    by (simp add: power2_eq_square)
  ultimately have e2: "e\<^sup>2 / 2 < 0.00021" by linarith
  with cos_lower [of e] show s0: "0.9997 < sn" by (simp add: sn)
  show "sn \<le> 1" by (simp add: sn)
  note w = omega_bounds
  have gap: "0 \<le> 1 - sn" "1 - sn < 0.00021"
    using cos_lower [of e] e2 by (simp_all add: sn)
  have "- SHM_omega * sn + SHM_omega = SHM_omega * (1 - sn)"
    by (simp add: algebra_simps)
  moreover have "0 \<le> SHM_omega * (1 - sn)"
    using w(1) gap(1) by simp
  moreover have "SHM_omega * (1 - sn) \<le> (8 / 5) * 0.00021"
    using w gap by (intro mult_mono) simp_all
  ultimately show "0 \<le> - SHM_omega * sn + SHM_omega"
    and "- SHM_omega * sn + SHM_omega < 0.0004"
    by simp_all
  have "SHM_omega ^ 2 \<le> (8 / 5) ^ 2"
    using w by (intro power_mono) simp_all
  moreover have "c \<le> 12 / 598"
    using se(2) e(2) by (simp add: c)
  ultimately have "SHM_omega ^ 2 * c \<le> (8 / 5) ^ 2 * (12 / 598)"
    using c0 by (intro mult_mono) simp_all
  moreover have "(8 / 5 :: real) ^ 2 * (12 / 598) < 0.052"
    by (simp add: power2_eq_square)
  ultimately show "- 0.052 < - (SHM_omega ^ 2) * c" by linarith
  have "0 < SHM_omega ^ 2 * c"
    using w(1) c0 by simp
  then show "- (SHM_omega ^ 2) * c < 0" by simp
qed

text \<open>
  The claim speaks of the frame at \<open>t = 1.25\<close>. With 300 frames over
  \<open>[0, 10]\<close>, both ends included, no frame has that time.
\<close>

theorem C4_no_frame_at_quarter_period_counterexample:
  "\<not> (\<exists>s i. SHM_arrays = Inr s \<and> i < length (t_full s) \<and> t_full s ! i = 5 / 4)"
proof
  assume "\<exists>s i. SHM_arrays = Inr s \<and> i < length (t_full s) \<and> t_full s ! i = 5 / 4"
  then obtain s i where s: "SHM_arrays = Inr s" and i: "i < length (t_full s)"
    and at: "t_full s ! i = 5 / 4"
    by blast
  have "5 / 4 \<notin> set (t_full s)"
    using SHM_script_grid [OF s] by (rule no_frame_at_quarter_period)
  moreover have "5 / 4 \<in> set (t_full s)"
    using nth_mem [OF i] unfolding at .
  ultimately show False by contradiction
qed

text \<open>
  C4, as the code has it. With \<open>R = 1\<close>, \<open>omega = 2 pi / 5\<close>, \<open>t_max = 10\<close> and
  300 frames, frame 0 is \<open>t = 0\<close>, \<open>x = 1\<close>, \<open>y = 0\<close>, \<open>d = 1\<close>, \<open>v = 0\<close>,
  \<open>a = F = - omega\<^sup>2\<close>. No frame is at \<open>t = 1.25\<close>: frames 37 and 38 lie on
  either side of it, and frame 37, at \<open>t = 370 / 299\<close>, has
  \<open>0 < x = d < 0.021\<close>, \<open>0.9997 < y \<le> 1\<close>, \<open>0 \<le> v + R omega < 0.0004\<close> and
  \<open>- 0.052 < a = F < 0\<close>.
\<close>

theorem C4_scenario:
  "\<exists>s. SHM_arrays = Inr s
     \<and> t_full s ! 0 = 0 \<and> x_full s ! 0 = 1 \<and> y_full s ! 0 = 0 \<and> d_full s ! 0 = 1
     \<and> v_full s ! 0 = 0 \<and> a_full s ! 0 = - (SHM_omega ^ 2)
     \<and> F_full s ! 0 = - (SHM_omega ^ 2)
     \<and> 5 / 4 \<notin> set (t_full s)
     \<and> t_full s ! 37 = 370 / 299 \<and> t_full s ! 37 < 5 / 4 \<and> 5 / 4 < t_full s ! 38
     \<and> 0 < x_full s ! 37 \<and> x_full s ! 37 < 0.021
     \<and> 0.9997 < y_full s ! 37 \<and> y_full s ! 37 \<le> 1
     \<and> d_full s ! 37 = x_full s ! 37
     \<and> 0 \<le> v_full s ! 37 + SHM_R * SHM_omega
     \<and> v_full s ! 37 + SHM_R * SHM_omega < 0.0004
     \<and> - 0.052 < a_full s ! 37 \<and> a_full s ! 37 < 0
     \<and> F_full s ! 37 = a_full s ! 37"
proof -
  obtain s where s: "SHM_arrays = Inr s"
    using SHM_script_returns by blast
  note grid = SHM_script_grid [OF s]
  have i0: "(0::nat) < 300" and i37: "(37::nat) < 300" and i38: "(38::nat) < 300"
    by simp_all
  have t0: "t_full s ! 0 = 0"
    using grid(2) [OF i0] by simp
  note f0 = SHM_script_frame [OF s i0]
  have x0: "x_full s ! 0 = 1" using f0(1) by (simp add: t0)
  have y0: "y_full s ! 0 = 0" using f0(2) by (simp add: t0)
  have d0: "d_full s ! 0 = 1" using f0(3) by (simp add: t0)
  have v0: "v_full s ! 0 = 0" using f0(4) by (simp add: t0)
  have a0: "a_full s ! 0 = - (SHM_omega ^ 2)" using f0(5) by (simp add: t0)
  have F0: "F_full s ! 0 = - (SHM_omega ^ 2)" using f0(6) by (simp add: t0)
  have none: "5 / 4 \<notin> set (t_full s)"
    using grid by (rule no_frame_at_quarter_period)
  have t37: "t_full s ! 37 = 37 * 10 / 299"
    using grid(2) [OF i37] by simp
  have t38: "t_full s ! 38 = 38 * 10 / 299"
    using grid(2) [OF i38] by simp
  have at37: "t_full s ! 37 = 370 / 299" by (simp add: t37)
  have before: "t_full s ! 37 < 5 / 4" by (simp add: t37)
  have after: "5 / 4 < t_full s ! 38" by (simp add: t38)
  note f37 = SHM_script_frame [OF s i37]
  note near = near_quarter_period
  have x37: "x_full s ! 37 = cos (SHM_omega * (37 * 10 / 299))"
    by (simp only: f37(1) t37)
  have y37: "y_full s ! 37 = sin (SHM_omega * (37 * 10 / 299))"
    by (simp only: f37(2) t37)
  have d37: "d_full s ! 37 = x_full s ! 37"
    by (simp only: f37(1) f37(3))
  have a37: "a_full s ! 37 = - (SHM_omega ^ 2) * cos (SHM_omega * (37 * 10 / 299))"
    by (simp only: f37(5) t37)
  have F37: "F_full s ! 37 = a_full s ! 37"
    by (simp only: f37(5) f37(6))
  have "SHM_R * SHM_omega = SHM_omega" by (simp add: SHM_script_values)
  then have v37: "v_full s ! 37 + SHM_R * SHM_omega
                = - SHM_omega * sin (SHM_omega * (37 * 10 / 299)) + SHM_omega"
    by (simp only: f37(4) t37)
  have bx: "0 < x_full s ! 37" "x_full s ! 37 < 0.021"
    unfolding x37 by (rule near)+
  have bY: "0.9997 < y_full s ! 37" "y_full s ! 37 \<le> 1"
    unfolding y37 by (rule near)+
  have bv: "0 \<le> v_full s ! 37 + SHM_R * SHM_omega"
    "v_full s ! 37 + SHM_R * SHM_omega < 0.0004"
    unfolding v37 by (rule near)+
  have ba: "- 0.052 < a_full s ! 37" "a_full s ! 37 < 0"
    unfolding a37 by (rule near)+
  show ?thesis
    by (intro exI [of _ s] conjI s t0 x0 y0 d0 v0 a0 F0 none at37 before after
        bx bY d37 bv ba F37)
qed

section \<open>Properties in binary64\<close>

subsection \<open>Rounding\<close>
















subsection \<open>The binary64 grid\<close>




















subsection \<open>Claim C3: the time grid\<close>




subsection \<open>Claim C1: invalid parameters\<close>








subsection \<open>Claim C5: the particle and the circle\<close>











lemma upt_2_nat: "[0..<nat 2] = [0, Suc 0]"
  by (simp add: upt_2)












end
